theory Spec2Isabelle
  imports Complex_Main
begin

section \<open>JavaScript values\<close>

text \<open>
  A JavaScript \<open>Number\<close> is modelled as an exact rational: prices, quantities, stock
  counts and totals are all of this one type, as they are in the source. The rounding
  of IEEE doubles is not part of the model.
\<close>

type_synonym number = rat

text \<open>\<open>Math.round(x)\<close>: the nearest integer, a tie going towards plus infinity.\<close>

definition Math_round :: "number \<Rightarrow> number" where
  "Math_round x = of_int \<lfloor>x + 1 / 2\<rfloor>"

text \<open>\<open>a || b\<close> on numbers: the left operand unless it is falsy (zero).\<close>

definition or_default :: "number \<Rightarrow> number \<Rightarrow> number" where
  "or_default a b = (if a = 0 then b else a)"

text \<open>\<open>Array.prototype.findIndex\<close>; the result \<open>-1\<close> is \<open>None\<close>.\<close>

fun findIndex :: "('a \<Rightarrow> bool) \<Rightarrow> 'a list \<Rightarrow> nat option" where
  "findIndex P [] = None"
| "findIndex P (x # xs) =
     (if P x then Some 0 else map_option Suc (findIndex P xs))"

section \<open>Cart model (Cart.model.js)\<close>

record variant_ref =
  sel_size :: string
  sel_color :: string
  sel_sku :: "string option"

record cart_item =
  item_id :: string
  product :: string
  variant :: variant_ref
  quantity :: number
  price :: number

record cart =
  user :: string
  items :: "cart_item list"
  subtotal :: number
  discount :: number
  couponCode :: "string option"
  shipping :: number
  tax :: number
  total :: number

definition taxRate :: number where
  "taxRate = 18 / 100"

definition calculateTotals :: "cart \<Rightarrow> cart" where
  "calculateTotals c =
     (let sub = foldl (\<lambda>sum item. sum + price item * quantity item) 0 (items c);
          tx = Math_round (sub * taxRate * 100) / 100;
          sh = (if sub \<ge> 999 then 0 else 99)
      in c\<lparr>subtotal := sub, tax := tx, shipping := sh,
            total := sub + tx + sh - discount c\<rparr>)"

text \<open>The predicate of \<open>addItem\<close>'s \<open>findIndex\<close>: same product id, size and colour.\<close>

definition same_line :: "cart_item \<Rightarrow> cart_item \<Rightarrow> bool" where
  "same_line item i \<longleftrightarrow>
     product i = product item \<and>
     sel_size (variant i) = sel_size (variant item) \<and>
     sel_color (variant i) = sel_color (variant item)"

definition addItem :: "cart \<Rightarrow> cart_item \<Rightarrow> cart" where
  "addItem c item =
     calculateTotals
       (case findIndex (same_line item) (items c) of
          Some k \<Rightarrow>
            c\<lparr>items := (items c)[k := (items c ! k)
                 \<lparr>quantity := quantity (items c ! k) + or_default (quantity item) 1\<rparr>]\<rparr>
        | None \<Rightarrow> c\<lparr>items := items c @ [item]\<rparr>)"

text \<open>\<open>items.id(itemId)\<close>: the index of the first sub-document with that \<open>_id\<close>.\<close>

definition items_id :: "cart_item list \<Rightarrow> string \<Rightarrow> nat option" where
  "items_id xs itemId = findIndex (\<lambda>i. item_id i = itemId) xs"

text \<open>\<open>items.pull(itemId)\<close>: removes the sub-documents with that \<open>_id\<close>.\<close>

definition items_pull :: "cart_item list \<Rightarrow> string \<Rightarrow> cart_item list" where
  "items_pull xs itemId = filter (\<lambda>i. item_id i \<noteq> itemId) xs"

definition updateItemQuantity :: "cart \<Rightarrow> string \<Rightarrow> number \<Rightarrow> cart" where
  "updateItemQuantity c itemId q =
     calculateTotals
       (case items_id (items c) itemId of
          Some k \<Rightarrow>
            (if q \<le> 0 then c\<lparr>items := items_pull (items c) itemId\<rparr>
             else c\<lparr>items := (items c)[k := (items c ! k)\<lparr>quantity := q\<rparr>]\<rparr>)
        | None \<Rightarrow> c)"

definition removeItem :: "cart \<Rightarrow> string \<Rightarrow> cart" where
  "removeItem c itemId = calculateTotals (c\<lparr>items := items_pull (items c) itemId\<rparr>)"

definition clearCart :: "cart \<Rightarrow> cart" where
  "clearCart c = calculateTotals (c\<lparr>items := [], couponCode := None, discount := 0\<rparr>)"

text \<open>The triple that identifies a cart line: product id, size and colour.\<close>

definition line_key :: "cart_item \<Rightarrow> string \<times> string \<times> string" where
  "line_key i = (product i, sel_size (variant i), sel_color (variant i))"

text \<open>\<open>Cart.create({ user, items: [] })\<close>: every total takes its schema default.\<close>

definition new_cart :: "string \<Rightarrow> cart" where
  "new_cart u = \<lparr>user = u, items = [], subtotal = 0, discount = 0, couponCode = None,
                 shipping = 0, tax = 0, total = 0\<rparr>"

text \<open>
  The carts that the methods of the model produce from a new cart. The last rule is the
  step of the coupon controllers, which set the coupon fields and recompute the totals.
\<close>

inductive cart_reachable :: "cart \<Rightarrow> bool" where
  reach_new: "cart_reachable (new_cart u)"
| reach_add: "cart_reachable c \<Longrightarrow> cart_reachable (addItem c item)"
| reach_update: "cart_reachable c \<Longrightarrow> cart_reachable (updateItemQuantity c itemId q)"
| reach_remove: "cart_reachable c \<Longrightarrow> cart_reachable (removeItem c itemId)"
| reach_clear: "cart_reachable c \<Longrightarrow> cart_reachable (clearCart c)"
| reach_coupon:
    "cart_reachable c \<Longrightarrow> cart_reachable (calculateTotals (c\<lparr>couponCode := cc, discount := d\<rparr>))"

section \<open>Responses (utils/response.js)\<close>

text \<open>
  A request that does not succeed either sends an error response (status code and
  message) or throws, which the controllers' \<open>catch\<close> hands to \<open>next(error)\<close>.
\<close>

datatype error = sendError nat string | thrown string

definition sendNotFound :: "string \<Rightarrow> error" where
  "sendNotFound resource = sendError 404 (resource @ '' not found'')"

definition EmptyCart :: error where
  "EmptyCart = sendError 400 ''Your cart is empty''"

definition InvalidCoupon :: error where
  "InvalidCoupon = sendError 400 ''Invalid coupon code''"

definition OrderNotCancellable :: error where
  "OrderNotCancellable = sendError 400 ''This order cannot be cancelled''"

definition InsufficientStock :: "string \<Rightarrow> string \<Rightarrow> string \<Rightarrow> error" where
  "InsufficientStock nm sz col =
     sendError 400 (''Insufficient stock for '' @ nm @ '' ('' @ sz @ ''/'' @ col @ '')'')"

section \<open>Products (Product.model.js)\<close>

record product_variant =
  v_size :: string
  v_color :: string
  v_sku :: string
  stock :: number
  v_price :: "number option"

record product_doc =
  p_id :: string
  name :: string
  images :: "string list"
  variants :: "product_variant list"
  totalStock :: number

text \<open>
  \<open>variants.find((v) => v.size === size && v.color === color)\<close>, the lookup of the
  controllers: the first variant that has both the size and the colour.
\<close>

definition find_variant :: "product_doc \<Rightarrow> variant_ref \<Rightarrow> product_variant option" where
  "find_variant p sel =
     find (\<lambda>v. v_size v = sel_size sel \<and> v_color v = sel_color sel) (variants p)"

section \<open>Coupons (cart.controller.js)\<close>

text \<open>\<open>String.prototype.toUpperCase\<close> on ASCII text: the letters a to z are raised.\<close>

definition upper_char :: "char \<Rightarrow> char" where
  "upper_char ch =
     (let n = (of_char ch :: nat) in if 97 \<le> n \<and> n \<le> 122 then char_of (n - 32) else ch)"

definition toUpperCase :: "string \<Rightarrow> string" where
  "toUpperCase s = map upper_char s"

definition is_ascii :: "string \<Rightarrow> bool" where
  "is_ascii s \<longleftrightarrow> (\<forall>ch \<in> set s. (of_char ch :: nat) < 128)"

text \<open>The object literal \<open>validCoupons\<close> and the property lookup on it.\<close>

definition coupon_table :: "(string \<times> number) list" where
  "coupon_table = [(''FIRST10'', 10), (''SAVE20'', 20), (''DESIGNER15'', 15)]"

definition validCoupons :: "string \<Rightarrow> number option" where
  "validCoupons = map_of coupon_table"

text \<open>
  The controllers read the user's cart with \<open>Cart.findOne\<close> and write it back with
  \<open>cart.save()\<close>; the cart collection is a map from the user id (one cart per user).
\<close>

type_synonym cart_store = "string \<Rightarrow> cart option"

definition applyCoupon :: "string \<Rightarrow> string \<Rightarrow> cart_store \<Rightarrow> (error + cart) \<times> cart_store" where
  "applyCoupon u code cs =
     (case cs u of
        None \<Rightarrow> (Inl (sendNotFound ''Cart''), cs)
      | Some c \<Rightarrow>
          (case validCoupons (toUpperCase code) of
             None \<Rightarrow> (Inl InvalidCoupon, cs)
           | Some pct \<Rightarrow>
               if pct = 0 then (Inl InvalidCoupon, cs)
               else
                 (let c' = calculateTotals
                             (c\<lparr>couponCode := Some (toUpperCase code),
                                discount := Math_round ((subtotal c * pct) / 100)\<rparr>)
                  in (Inr c', cs(u \<mapsto> c')))))"

definition removeCoupon :: "string \<Rightarrow> cart_store \<Rightarrow> (error + cart) \<times> cart_store" where
  "removeCoupon u cs =
     (case cs u of
        None \<Rightarrow> (Inl (sendNotFound ''Cart''), cs)
      | Some c \<Rightarrow>
          (let c' = calculateTotals (c\<lparr>couponCode := None, discount := 0\<rparr>)
           in (Inr c', cs(u \<mapsto> c'))))"

section \<open>Orders (Order.model.js)\<close>

datatype order_status =
  pending | confirmed | processing | shipped | out_for_delivery | delivered
  | cancelled | returned | refunded

datatype payment_method = cod | card | upi | netbanking | wallet

datatype payment_status = pay_pending | pay_processing | pay_completed | pay_failed | pay_refunded

text \<open>What the hook and the methods read of a \<open>Date\<close>.\<close>

record date =
  getFullYear :: nat
  getMonth :: nat
  getDate :: nat
  getTime :: nat

record order_item =
  oi_product :: string
  oi_name :: string
  oi_image :: string
  oi_variant :: variant_ref
  oi_quantity :: number
  oi_price :: number
  oi_total :: number

record address =
  a_name :: string
  a_phone :: string
  a_street :: string
  a_city :: string
  a_state :: string
  a_zipCode :: string

record payment_info =
  pay_method :: payment_method
  pay_status :: payment_status

record pricing_info =
  pr_subtotal :: number
  pr_discount :: number
  pr_couponCode :: "string option"
  pr_shipping :: number
  pr_tax :: number
  pr_total :: number

record history_entry =
  h_status :: order_status
  h_date :: date
  h_note :: "string option"

record shipping_info =
  carrier :: "string option"
  trackingNumber :: "string option"
  shippedAt :: "date option"
  deliveredAt :: "date option"

record cancellation_info =
  reason :: "string option"
  cancelledAt :: date
  cancelledBy :: string

text \<open>
  An order document. \<open>status_modified\<close> is the change tracking of the document for the
  path \<open>status\<close>, which \<open>isModified('status')\<close> reads: an assignment of a value that
  differs from the current one marks the path, a save clears the mark.
\<close>

record order =
  order_id :: string
  orderNumber :: "string option"
  o_user :: string
  o_items :: "order_item list"
  shippingAddress :: address
  billingAddress :: address
  payment :: payment_info
  pricing :: pricing_info
  status :: order_status
  statusHistory :: "history_entry list"
  o_shipping :: shipping_info
  notes_customer :: "string option"
  cancellation :: "cancellation_info option"
  status_modified :: bool

definition set_status :: "order_status \<Rightarrow> order \<Rightarrow> order" where
  "set_status v d = d\<lparr>status := v, status_modified := (status_modified d \<or> v \<noteq> status d)\<rparr>"

definition canCancel :: "order \<Rightarrow> bool" where
  "canCancel d \<longleftrightarrow> status d \<in> set [pending, confirmed, processing]"

subsection \<open>The order number\<close>

definition digit_char :: "nat \<Rightarrow> char" where
  "digit_char d = char_of (48 + d)"

text \<open>\<open>String(n)\<close> for a natural number: its decimal digits.\<close>

fun String_nat :: "nat \<Rightarrow> string" where
  "String_nat n =
     (if n < 10 then [digit_char n] else String_nat (n div 10) @ [digit_char (n mod 10)])"

declare String_nat.simps [simp del]

definition padStart :: "nat \<Rightarrow> char \<Rightarrow> string \<Rightarrow> string" where
  "padStart w ch s = replicate (w - length s) ch @ s"

definition dateStr :: "date \<Rightarrow> string" where
  "dateStr d =
     String_nat (getFullYear d) @ padStart 2 CHR ''0'' (String_nat (getMonth d + 1))
       @ padStart 2 CHR ''0'' (String_nat (getDate d))"

definition order_number :: "date \<Rightarrow> nat \<Rightarrow> string" where
  "order_number d count =
     ''ORD-'' @ dateStr d @ ''-'' @ padStart 6 CHR ''0'' (String_nat (count + 1))"

text \<open>\<open>!this.orderNumber\<close>: the field is undefined or the empty string.\<close>

definition no_orderNumber :: "order \<Rightarrow> bool" where
  "no_orderNumber d \<longleftrightarrow> (case orderNumber d of None \<Rightarrow> True | Some s \<Rightarrow> s = [])"

text \<open>
  The \<open>pre('save')\<close> hook. \<open>count\<close> is what \<open>countDocuments()\<close> answers and \<open>now\<close> is
  \<open>new Date()\<close>.
\<close>

definition pre_save :: "nat \<Rightarrow> date \<Rightarrow> order \<Rightarrow> order" where
  "pre_save count now d =
     (let d1 = (if no_orderNumber d then d\<lparr>orderNumber := Some (order_number now count)\<rparr>
                else d);
          d2 = (if status_modified d1
                then d1\<lparr>statusHistory := statusHistory d1 @
                        [\<lparr>h_status = status d1, h_date = now, h_note = None\<rparr>]\<rparr>
                else d1)
      in d2)"

definition updateStatus :: "order_status \<Rightarrow> string option \<Rightarrow> date \<Rightarrow> order \<Rightarrow> order" where
  "updateStatus newStatus note now d =
     (let d1 = set_status newStatus d;
          d2 = d1\<lparr>statusHistory := statusHistory d1 @
                  [\<lparr>h_status = newStatus, h_date = now, h_note = note\<rparr>]\<rparr>
      in if newStatus = shipped
         then d2\<lparr>o_shipping := (o_shipping d2)\<lparr>shippedAt := Some now\<rparr>\<rparr>
         else if newStatus = delivered
         then d2\<lparr>o_shipping := (o_shipping d2)\<lparr>deliveredAt := Some now\<rparr>\<rparr>
         else d2)"

definition cancel :: "string option \<Rightarrow> string \<Rightarrow> date \<Rightarrow> order \<Rightarrow> error + order" where
  "cancel rsn by now d =
     (if \<not> canCancel d then Inl (thrown ''Order cannot be cancelled at this stage'')
      else Inr ((set_status cancelled d)
                  \<lparr>cancellation :=
                     Some \<lparr>reason = rsn, cancelledAt = now, cancelledBy = by\<rparr>\<rparr>))"

subsection \<open>The order collection\<close>

text \<open>
  The collection is the list of stored orders, in insertion order. \<open>orderNumber\<close> has a
  unique index, so a write that would store a second order under a number already
  present is refused with a duplicate key error. The validation of a document against
  its schema (required paths, enumerations, minima) is not part of the model: a document
  handed to a save is taken to pass it.
\<close>

definition duplicate_key :: error where
  "duplicate_key = thrown ''E11000 duplicate key error''"

text \<open>
  Saving a new document (\<open>Order.create\<close>): the hook runs, then the insert. The index on
  \<open>_id\<close> is unique as well.
\<close>

definition save_new :: "nat \<Rightarrow> date \<Rightarrow> order \<Rightarrow> order list \<Rightarrow> (error + order) \<times> order list" where
  "save_new count now doc os =
     (let d = (pre_save count now doc)\<lparr>status_modified := False\<rparr>
      in if orderNumber d \<in> orderNumber ` set os \<or> order_id d \<in> order_id ` set os
         then (Inl duplicate_key, os)
         else (Inr d, os @ [d]))"

text \<open>Saving a document that was loaded from the collection.\<close>

definition save_order :: "nat \<Rightarrow> date \<Rightarrow> order \<Rightarrow> order list \<Rightarrow> (error + order) \<times> order list" where
  "save_order count now doc os =
     (let d = (pre_save count now doc)\<lparr>status_modified := False\<rparr>
      in if orderNumber d \<in> orderNumber ` set (filter (\<lambda>x. order_id x \<noteq> order_id d) os)
         then (Inl duplicate_key, os)
         else (Inr d, map (\<lambda>x. if order_id x = order_id d then d else x) os))"

text \<open>
  The collections that creations and saves produce from the empty one. A creation saves a
  document that has no order number yet; \<open>count\<close> is whatever \<open>countDocuments()\<close>
  answered, which under concurrent requests need not be the number of orders stored when
  the insert happens. A later save writes back a document that was loaded from the
  collection and changed by the methods of the model, none of which assigns
  \<open>orderNumber\<close>.
\<close>

inductive store_reachable :: "order list \<Rightarrow> bool" where
  store_empty: "store_reachable []"
| store_create:
    "store_reachable os \<Longrightarrow> no_orderNumber doc \<Longrightarrow>
     save_new count now doc os = (Inr d, os') \<Longrightarrow> store_reachable os'"
| store_save:
    "store_reachable os \<Longrightarrow> stored \<in> set os \<Longrightarrow> order_id doc = order_id stored \<Longrightarrow>
     orderNumber doc = orderNumber stored \<Longrightarrow>
     save_order count now doc os = (Inr d, os') \<Longrightarrow> store_reachable os'"

text \<open>
  The same when requests run one after the other and orders are only ever inserted, as in
  this repository: the count read by the hook is the number of stored orders.
\<close>

inductive store_sequential :: "order list \<Rightarrow> bool" where
  seq_empty: "store_sequential []"
| seq_create:
    "store_sequential os \<Longrightarrow> no_orderNumber doc \<Longrightarrow>
     save_new (length os) now doc os = (Inr d, os') \<Longrightarrow> store_sequential os'"
| seq_save:
    "store_sequential os \<Longrightarrow> stored \<in> set os \<Longrightarrow> order_id doc = order_id stored \<Longrightarrow>
     orderNumber doc = orderNumber stored \<Longrightarrow>
     save_order (length os) now doc os = (Inr d, os') \<Longrightarrow> store_sequential os'"

text \<open>
  The invariant of the collection: order numbers and ids are pairwise distinct and every
  stored order has an order number.
\<close>

definition store_inv :: "order list \<Rightarrow> bool" where
  "store_inv os \<longleftrightarrow>
     distinct (map orderNumber os) \<and> distinct (map order_id os) \<and>
     (\<forall>x \<in> set os. \<not> no_orderNumber x)"

section \<open>Stock updates (order.controller.js)\<close>

text \<open>
  The two stock updates call
  \<^verbatim>\<open>Product.updateOne({ _id, 'variants.size': size, 'variants.color': color },
                    { $inc: { 'variants.$.stock': n, totalStock: n } })\<close>.
  The filter puts two separate conditions on the array \<open>variants\<close> and does not use
  \<open>$elemMatch\<close>. The database selects a document when some variant has the size and
  some variant, possibly another one, has the colour. The position that \<open>$\<close> stands for
  is the index of the first array element that satisfies one of the array conditions;
  which condition it is depends on the order in which the server evaluates them, so it
  is a parameter of the model.
\<close>

datatype positional = first_size_match | first_color_match

definition filter_matches :: "product_doc \<Rightarrow> variant_ref \<Rightarrow> bool" where
  "filter_matches p sel \<longleftrightarrow>
     (\<exists>v \<in> set (variants p). v_size v = sel_size sel) \<and>
     (\<exists>v \<in> set (variants p). v_color v = sel_color sel)"

definition position :: "positional \<Rightarrow> product_doc \<Rightarrow> variant_ref \<Rightarrow> nat option" where
  "position r p sel =
     (case r of
        first_size_match \<Rightarrow> findIndex (\<lambda>v. v_size v = sel_size sel) (variants p)
      | first_color_match \<Rightarrow> findIndex (\<lambda>v. v_color v = sel_color sel) (variants p))"

type_synonym product_store = "string \<Rightarrow> product_doc option"

definition updateOne_inc ::
  "positional \<Rightarrow> string \<Rightarrow> variant_ref \<Rightarrow> number \<Rightarrow> product_store \<Rightarrow> product_store" where
  "updateOne_inc r pid sel n ps =
     (case ps pid of
        None \<Rightarrow> ps
      | Some p \<Rightarrow>
          if filter_matches p sel then
            (case position r p sel of
               None \<Rightarrow> ps
             | Some k \<Rightarrow>
                 ps(pid \<mapsto> p\<lparr>variants := (variants p)[k := (variants p ! k)
                                   \<lparr>stock := stock (variants p ! k) + n\<rparr>],
                              totalStock := totalStock p + n\<rparr>))
          else ps)"

text \<open>The loop "Reduce stock for each item" of \<open>createOrder\<close>.\<close>

fun reduce_stock :: "positional \<Rightarrow> cart_item list \<Rightarrow> product_store \<Rightarrow> product_store" where
  "reduce_stock r [] ps = ps"
| "reduce_stock r (item # rest) ps =
     reduce_stock r rest (updateOne_inc r (product item) (variant item) (- quantity item) ps)"

text \<open>The loop "Restore stock" of \<open>cancelOrder\<close>.\<close>

fun restore_stock :: "positional \<Rightarrow> order_item list \<Rightarrow> product_store \<Rightarrow> product_store" where
  "restore_stock r [] ps = ps"
| "restore_stock r (item # rest) ps =
     restore_stock r rest (updateOne_inc r (oi_product item) (oi_variant item) (oi_quantity item) ps)"

section \<open>Checkout and cancellation (order.controller.js)\<close>

record db =
  carts :: cart_store
  products :: product_store
  orders :: "order list"

record checkout_request =
  req_shippingAddress :: address
  req_billingAddress :: "address option"
  req_paymentMethod :: payment_method
  req_notes :: "string option"

text \<open>
  The first loop of \<open>createOrder\<close>: every cart line is checked against its populated
  product, and the first line that fails ends the request. A line whose product no longer
  exists is populated with \<open>null\<close>, and reading \<open>product.variants\<close> throws.
\<close>

fun prepare_items :: "product_store \<Rightarrow> cart_item list \<Rightarrow> error + order_item list" where
  "prepare_items ps [] = Inr []"
| "prepare_items ps (item # rest) =
     (case ps (product item) of
        None \<Rightarrow> Inl (thrown ''TypeError: Cannot read properties of null'')
      | Some p \<Rightarrow>
          (case find_variant p (variant item) of
             None \<Rightarrow>
               Inl (InsufficientStock (name p) (sel_size (variant item)) (sel_color (variant item)))
           | Some v \<Rightarrow>
               if stock v < quantity item
               then Inl (InsufficientStock (name p) (sel_size (variant item))
                          (sel_color (variant item)))
               else
                 (case prepare_items ps rest of
                    Inl e \<Rightarrow> Inl e
                  | Inr ois \<Rightarrow>
                      Inr (\<lparr>oi_product = p_id p, oi_name = name p,
                            oi_image = (case images p of [] \<Rightarrow> [] | url # _ \<Rightarrow> url),
                            oi_variant = variant item,
                            oi_quantity = quantity item, oi_price = price item,
                            oi_total = price item * quantity item\<rparr> # ois))))"

text \<open>
  The document that \<open>Order.create\<close> builds: \<open>status\<close> takes its default, the history is
  empty. \<open>dflt\<close> says whether the document counts a defaulted \<open>status\<close> as modified.
\<close>

definition new_order ::
  "bool \<Rightarrow> string \<Rightarrow> string \<Rightarrow> order_item list \<Rightarrow> checkout_request \<Rightarrow> cart \<Rightarrow> order" where
  "new_order dflt oid u ois req c =
     \<lparr>order_id = oid, orderNumber = None, o_user = u, o_items = ois,
      shippingAddress = req_shippingAddress req,
      billingAddress = (case req_billingAddress req of
                          None \<Rightarrow> req_shippingAddress req | Some b \<Rightarrow> b),
      payment = \<lparr>pay_method = req_paymentMethod req,
                 pay_status = (if req_paymentMethod req = cod then pay_pending
                               else pay_processing)\<rparr>,
      pricing = \<lparr>pr_subtotal = subtotal c, pr_discount = discount c,
                 pr_couponCode = couponCode c, pr_shipping = shipping c,
                 pr_tax = tax c, pr_total = total c\<rparr>,
      status = pending, statusHistory = [],
      o_shipping = \<lparr>carrier = None, trackingNumber = None, shippedAt = None,
                    deliveredAt = None\<rparr>,
      notes_customer = req_notes req, cancellation = None, status_modified = dflt\<rparr>"

text \<open>
  \<open>createOrder\<close>. \<open>oid\<close> is the \<open>_id\<close> the new order gets and \<open>now\<close> the time of the
  request. The result is the response together with the database after the request.
\<close>

definition createOrder ::
  "positional \<Rightarrow> bool \<Rightarrow> string \<Rightarrow> checkout_request \<Rightarrow> string \<Rightarrow> date \<Rightarrow> db
     \<Rightarrow> (error + order) \<times> db" where
  "createOrder r dflt u req oid now s =
     (case carts s u of
        None \<Rightarrow> (Inl EmptyCart, s)
      | Some c \<Rightarrow>
          if items c = [] then (Inl EmptyCart, s)
          else
            (case prepare_items (products s) (items c) of
               Inl e \<Rightarrow> (Inl e, s)
             | Inr ois \<Rightarrow>
                 (case save_new (length (orders s)) now (new_order dflt oid u ois req c) (orders s) of
                    (Inl e, os) \<Rightarrow> (Inl e, s)
                  | (Inr ord, os) \<Rightarrow>
                      (Inr ord,
                       s\<lparr>orders := os,
                         products := reduce_stock r (items c) (products s),
                         carts := (carts s)(u \<mapsto> clearCart c)\<rparr>))))"

definition find_order :: "string \<Rightarrow> string \<Rightarrow> order list \<Rightarrow> order option" where
  "find_order oid u os = find (\<lambda>x. order_id x = oid \<and> o_user x = u) os"

definition cancelOrder ::
  "positional \<Rightarrow> string \<Rightarrow> string \<Rightarrow> string option \<Rightarrow> date \<Rightarrow> db \<Rightarrow> (error + order) \<times> db" where
  "cancelOrder r u oid rsn now s =
     (case find_order oid u (orders s) of
        None \<Rightarrow> (Inl (sendNotFound ''Order''), s)
      | Some ord \<Rightarrow>
          if \<not> canCancel ord then (Inl OrderNotCancellable, s)
          else
            (case cancel rsn u now ord of
               Inl e \<Rightarrow> (Inl e, s)
             | Inr ord1 \<Rightarrow>
                 (let ps = restore_stock r (o_items ord1) (products s)
                  in case save_order (length (orders s)) now ord1 (orders s) of
                       (Inl e, os) \<Rightarrow> (Inl e, s\<lparr>products := ps\<rparr>)
                     | (Inr ord2, os) \<Rightarrow> (Inr ord2, s\<lparr>products := ps, orders := os\<rparr>))))"

text \<open>\<open>updateOrderStatus\<close> of the admin controller: \<open>updateStatus\<close>, then \<open>save\<close>.\<close>

definition updateOrderStatus ::
  "string \<Rightarrow> order_status \<Rightarrow> string option \<Rightarrow> string option \<Rightarrow> string option \<Rightarrow> date
     \<Rightarrow> order list \<Rightarrow> (error + order) \<times> order list" where
  "updateOrderStatus oid st note tracking carr now os =
     (case find (\<lambda>x. order_id x = oid) os of
        None \<Rightarrow> (Inl (sendNotFound ''Order''), os)
      | Some ord \<Rightarrow>
          (let d1 = updateStatus st note now ord;
               d2 = (case tracking of
                       None \<Rightarrow> d1
                     | Some t \<Rightarrow> if t = [] then d1
                                 else d1\<lparr>o_shipping := (o_shipping d1)\<lparr>trackingNumber := Some t\<rparr>\<rparr>);
               d3 = (case carr of
                       None \<Rightarrow> d2
                     | Some c \<Rightarrow> if c = [] then d2
                                 else d2\<lparr>o_shipping := (o_shipping d2)\<lparr>carrier := Some c\<rparr>\<rparr>)
           in save_order (length os) now d3 os))"

section \<open>Example data\<close>

text \<open>A cart line of two items at 500 each, and the cart of user \<open>u1\<close> that holds it.\<close>

definition shirt_line :: cart_item where
  "shirt_line =
     \<lparr>item_id = ''i1'', product = ''p1'',
      variant = \<lparr>sel_size = ''M'', sel_color = ''White'', sel_sku = Some ''WSH-M-WHT''\<rparr>,
      quantity = 2, price = 500\<rparr>"

definition shirt_cart :: cart where
  "shirt_cart = addItem (new_cart ''u1'') shirt_line"

definition shirt_carts :: cart_store where
  "shirt_carts = [''u1'' \<mapsto> shirt_cart]"

text \<open>The same cart after the coupon \<open>SAVE20\<close> was applied, and after the line was then removed.\<close>

definition coupon_cart :: cart where
  "coupon_cart =
     (case applyCoupon ''u1'' ''SAVE20'' shirt_carts of
        (Inr c, cs) \<Rightarrow> c
      | (Inl e, cs) \<Rightarrow> shirt_cart)"

definition emptied_cart :: cart where
  "emptied_cart = removeItem coupon_cart ''i1''"

text \<open>
  The jeans of the seed script (scripts/seedDatabase.js) with their five variants, a cart
  holding one pair in L/Black, and a database with that product and that cart.
\<close>

definition jeans :: product_doc where
  "jeans =
     \<lparr>p_id = ''p2'', name = ''Premium Slim Fit Denim Jeans'',
      images = [''/uploads/products/sample-jeans-1.jpg''],
      variants =
        [\<lparr>v_size = ''S'', v_color = ''Indigo'', v_sku = ''JNS-S-IND'', stock = 12, v_price = None\<rparr>,
         \<lparr>v_size = ''M'', v_color = ''Indigo'', v_sku = ''JNS-M-IND'', stock = 25, v_price = None\<rparr>,
         \<lparr>v_size = ''L'', v_color = ''Indigo'', v_sku = ''JNS-L-IND'', stock = 20, v_price = None\<rparr>,
         \<lparr>v_size = ''M'', v_color = ''Black'', v_sku = ''JNS-M-BLK'', stock = 15, v_price = None\<rparr>,
         \<lparr>v_size = ''L'', v_color = ''Black'', v_sku = ''JNS-L-BLK'', stock = 18, v_price = None\<rparr>],
      totalStock = 90\<rparr>"

definition jeans_line :: cart_item where
  "jeans_line =
     \<lparr>item_id = ''i2'', product = ''p2'',
      variant = \<lparr>sel_size = ''L'', sel_color = ''Black'', sel_sku = Some ''JNS-L-BLK''\<rparr>,
      quantity = 1, price = 4999\<rparr>"

definition jeans_db :: db where
  "jeans_db =
     \<lparr>carts = [''u1'' \<mapsto> addItem (new_cart ''u1'') jeans_line],
      products = [''p2'' \<mapsto> jeans],
      orders = []\<rparr>"

definition home :: address where
  "home = \<lparr>a_name = ''A Customer'', a_phone = ''9876543210'', a_street = ''1 Main Road'',
            a_city = ''Guwahati'', a_state = ''Assam'', a_zipCode = ''781001''\<rparr>"

definition cod_request :: checkout_request where
  "cod_request = \<lparr>req_shippingAddress = home, req_billingAddress = None,
                   req_paymentMethod = cod, req_notes = None\<rparr>"

definition today :: date where
  "today = \<lparr>getFullYear = 2026, getMonth = 10, getDate = 2, getTime = 1000\<rparr>"

text \<open>The stock counts of a product's variants, in array order.\<close>

definition stocks :: "db \<Rightarrow> string \<Rightarrow> number list" where
  "stocks s pid = (case products s pid of None \<Rightarrow> [] | Some p \<Rightarrow> map stock (variants p))"

text \<open>The database after the checkout of that cart, as order \<open>o1\<close>.\<close>

definition ordered_db :: "positional \<Rightarrow> bool \<Rightarrow> db" where
  "ordered_db r dflt = snd (createOrder r dflt ''u1'' cod_request ''o1'' today jeans_db)"

text \<open>The status history of the stored order with a given \<open>_id\<close>.\<close>

definition history_of :: "string \<Rightarrow> order list \<Rightarrow> history_entry list" where
  "history_of oid os = (case find (\<lambda>x. order_id x = oid) os of
                          None \<Rightarrow> [] | Some d \<Rightarrow> statusHistory d)"

text \<open>A database in which user \<open>u1\<close> has a cart without items.\<close>

definition empty_cart_db :: db where
  "empty_cart_db =
     \<lparr>carts = [''u1'' \<mapsto> new_cart ''u1''], products = [''p2'' \<mapsto> jeans], orders = []\<rparr>"

text \<open>The document that the checkout of the jeans cart hands to \<open>Order.create\<close>.\<close>

definition first_doc :: order where
  "first_doc =
     new_order False ''o1'' ''u1''
       (case prepare_items (products jeans_db) [jeans_line] of Inr ois \<Rightarrow> ois | Inl e \<Rightarrow> [])
       cod_request (addItem (new_cart ''u1'') jeans_line)"

section \<open>Properties of the cart\<close>

subsection \<open>Arithmetic and totals\<close>


lemma floor_rat_numeral [simp]:
  "\<lfloor>numeral a / numeral b :: rat\<rfloor> = numeral a div numeral b"
  using floor_divide_of_int_eq [of "numeral a" "numeral b", where ?'a = rat] by simp

lemma floor_half_rat [simp]: "\<lfloor>1 / 2 :: rat\<rfloor> = 0"
  by (simp add: floor_eq_iff)

lemma foldl_sum_aux:
  "foldl (\<lambda>sum item. sum + price item * quantity item) a xs
     = a + (\<Sum>i\<leftarrow>xs. price i * quantity i)"
  by (induction xs arbitrary: a) (simp_all add: add.assoc)

lemma Math_round_close: "\<bar>Math_round x - x\<bar> \<le> 1 / 2"
  unfolding Math_round_def by linarith

lemma round2_close: "\<bar>Math_round (x * 100) / 100 - x\<bar> \<le> 1 / 200"
proof -
  have "\<bar>Math_round (x * 100) - x * 100\<bar> \<le> 1 / 2" by (rule Math_round_close)
  then show ?thesis by (simp add: field_simps abs_le_iff)
qed

lemma calculateTotals_frame [simp]:
  "items (calculateTotals c) = items c"
  "discount (calculateTotals c) = discount c"
  "couponCode (calculateTotals c) = couponCode c"
  "user (calculateTotals c) = user c"
  by (simp_all add: calculateTotals_def Let_def)

lemma calculateTotals_fields:
  "subtotal (calculateTotals c) = (\<Sum>i\<leftarrow>items c. price i * quantity i)"
  "tax (calculateTotals c) = Math_round (subtotal (calculateTotals c) * (18 / 100) * 100) / 100"
  "shipping (calculateTotals c) = (if subtotal (calculateTotals c) \<ge> 999 then 0 else 99)"
  "total (calculateTotals c) =
     subtotal (calculateTotals c) + tax (calculateTotals c) + shipping (calculateTotals c)
       - discount c"
  by (simp_all add: calculateTotals_def Let_def foldl_sum_aux taxRate_def)

lemma calculateTotals_idem: "calculateTotals (calculateTotals c) = calculateTotals c"
  by (simp add: calculateTotals_def Let_def)

lemma calculateTotals_empty:
  assumes "items c = []"
  shows "calculateTotals c = c\<lparr>subtotal := 0, tax := 0, shipping := 99, total := 99 - discount c\<rparr>"
  using assms by (simp add: calculateTotals_def Let_def Math_round_def)



subsection \<open>Frame of the item mutations\<close>

lemma addItem_frame [simp]:
  "discount (addItem c item) = discount c"
  "couponCode (addItem c item) = couponCode c"
  by (simp_all add: addItem_def split: option.split)

lemma updateItemQuantity_frame [simp]:
  "discount (updateItemQuantity c itemId q) = discount c"
  "couponCode (updateItemQuantity c itemId q) = couponCode c"
  by (simp_all add: updateItemQuantity_def split: option.split)

lemma removeItem_frame [simp]:
  "discount (removeItem c itemId) = discount c"
  "couponCode (removeItem c itemId) = couponCode c"
  by (simp_all add: removeItem_def)

lemma recomputed:
  "calculateTotals (addItem c item) = addItem c item"
  "calculateTotals (updateItemQuantity c itemId q) = updateItemQuantity c itemId q"
  "calculateTotals (removeItem c itemId) = removeItem c itemId"
  "calculateTotals (clearCart c) = clearCart c"
  by (simp_all add: addItem_def updateItemQuantity_def removeItem_def clearCart_def
        calculateTotals_idem)

lemma clearCart_fields:
  "clearCart c = c\<lparr>items := [], couponCode := None, discount := 0, subtotal := 0, tax := 0,
                   shipping := 99, total := 99\<rparr>"
  by (simp add: clearCart_def calculateTotals_empty)

text \<open>
  C9, as amended. For a cart with no items \<open>calculateTotals\<close> gives subtotal 0, tax 0,
  shipping 99 and total 99 minus the discount held by the cart. \<open>clearCart\<close> resets the
  discount to 0 and the coupon code, so right after it the total is 99.
\<close>

theorem empty_cart_totals:
  "(items c = [] \<longrightarrow>
      subtotal (calculateTotals c) = 0 \<and> tax (calculateTotals c) = 0 \<and>
      shipping (calculateTotals c) = 99 \<and> total (calculateTotals c) = 99 - discount c)
   \<and> items (clearCart c) = [] \<and> discount (clearCart c) = 0 \<and> couponCode (clearCart c) = None
   \<and> subtotal (clearCart c) = 0 \<and> tax (clearCart c) = 0
   \<and> shipping (clearCart c) = 99 \<and> total (clearCart c) = 99"
  by (simp add: calculateTotals_empty clearCart_fields)

lemma emptied_cart_eval:
  "items emptied_cart = []" "discount emptied_cart = 200" "couponCode emptied_cart = Some ''SAVE20''"
  by code_simp+

theorem empty_cart_totals_witness:
  "items emptied_cart = [] \<and> subtotal (calculateTotals emptied_cart) = 0
   \<and> tax (calculateTotals emptied_cart) = 0 \<and> shipping (calculateTotals emptied_cart) = 99
   \<and> total (calculateTotals emptied_cart) = 99 - 200"
  using empty_cart_totals [of emptied_cart] emptied_cart_eval by simp

text \<open>
  The claim as stated fails on a cart that the model's own operations reach: add a line,
  apply \<open>SAVE20\<close>, remove the line. The cart is empty, the discount is still 200 and the
  total is -101.
\<close>

theorem empty_cart_total_counterexample:
  "cart_reachable emptied_cart \<and> items emptied_cart = []
   \<and> total (calculateTotals emptied_cart) = - 101
   \<and> total (calculateTotals emptied_cart) \<noteq> 99"
proof -
  have r0: "cart_reachable shirt_cart"
    unfolding shirt_cart_def by (intro reach_add reach_new)
  have e: "coupon_cart =
    calculateTotals (shirt_cart\<lparr>couponCode := Some ''SAVE20'', discount := 200\<rparr>)"
    by code_simp
  have r: "cart_reachable emptied_cart"
    unfolding emptied_cart_def e by (intro reach_remove reach_coupon r0)
  have t: "total (calculateTotals emptied_cart) = - 101"
    by (simp add: calculateTotals_empty emptied_cart_eval)
  show ?thesis using r t emptied_cart_eval by simp
qed

text \<open>
  C10. \<open>addItem\<close>, \<open>updateItemQuantity\<close> and \<open>removeItem\<close> leave \<open>discount\<close> and
  \<open>couponCode\<close> as they were and recompute subtotal, tax, shipping and total, the total
  with the discount the cart already held. The discount is therefore the amount computed
  when the coupon was applied, whatever the items become.
\<close>

theorem item_mutations_keep_discount:
  "discount (addItem c item) = discount c \<and> couponCode (addItem c item) = couponCode c
   \<and> discount (updateItemQuantity c itemId q) = discount c
   \<and> couponCode (updateItemQuantity c itemId q) = couponCode c
   \<and> discount (removeItem c itemId) = discount c
   \<and> couponCode (removeItem c itemId) = couponCode c
   \<and> calculateTotals (addItem c item) = addItem c item
   \<and> calculateTotals (updateItemQuantity c itemId q) = updateItemQuantity c itemId q
   \<and> calculateTotals (removeItem c itemId) = removeItem c itemId
   \<and> total (addItem c item) =
       subtotal (addItem c item) + tax (addItem c item) + shipping (addItem c item) - discount c
   \<and> total (updateItemQuantity c itemId q) =
       subtotal (updateItemQuantity c itemId q) + tax (updateItemQuantity c itemId q)
         + shipping (updateItemQuantity c itemId q) - discount c
   \<and> total (removeItem c itemId) =
       subtotal (removeItem c itemId) + tax (removeItem c itemId)
         + shipping (removeItem c itemId) - discount c"
proof -
  have a: "total (addItem c item) =
       subtotal (addItem c item) + tax (addItem c item) + shipping (addItem c item) - discount c"
    using calculateTotals_fields(4) [of "addItem c item"] by (simp add: recomputed)
  have u: "total (updateItemQuantity c itemId q) =
       subtotal (updateItemQuantity c itemId q) + tax (updateItemQuantity c itemId q)
         + shipping (updateItemQuantity c itemId q) - discount c"
    using calculateTotals_fields(4) [of "updateItemQuantity c itemId q"]
    by (simp add: recomputed)
  have r: "total (removeItem c itemId) =
       subtotal (removeItem c itemId) + tax (removeItem c itemId)
         + shipping (removeItem c itemId) - discount c"
    using calculateTotals_fields(4) [of "removeItem c itemId"] by (simp add: recomputed)
  show ?thesis
    by (intro conjI addItem_frame updateItemQuantity_frame removeItem_frame recomputed a u r)
qed

text \<open>
  At the example cart the discount of 200 set by \<open>SAVE20\<close> survives the removal of the only
  line: it exceeds the new subtotal of 0.
\<close>

theorem item_mutations_keep_discount_witness:
  "discount coupon_cart = 200 \<and> discount (removeItem coupon_cart ''i1'') = 200
   \<and> subtotal (removeItem coupon_cart ''i1'') = 0
   \<and> couponCode (removeItem coupon_cart ''i1'') = Some ''SAVE20''"
proof -
  have d: "discount coupon_cart = 200" and k: "couponCode coupon_cart = Some ''SAVE20''"
    by code_simp+
  have s: "subtotal (removeItem coupon_cart ''i1'') = 0" by code_simp
  from item_mutations_keep_discount [of coupon_cart shirt_line "''i1''" 0] d k
  have "discount (removeItem coupon_cart ''i1'') = 200"
    and "couponCode (removeItem coupon_cart ''i1'') = Some ''SAVE20''"
    by simp_all
  with d s show ?thesis by simp
qed

subsection \<open>Lines of a cart\<close>

lemma findIndex_Some:
  "findIndex P xs = Some k \<Longrightarrow> k < length xs \<and> P (xs ! k) \<and> (\<forall>j<k. \<not> P (xs ! j))"
proof (induction xs arbitrary: k)
  case Nil
  then show ?case by simp
next
  case (Cons x xs)
  show ?case
  proof (cases "P x")
    case True
    with Cons.prems show ?thesis by simp
  next
    case False
    with Cons.prems obtain k' where k': "findIndex P xs = Some k'" "k = Suc k'"
      by auto
    from Cons.IH [OF k'(1)] False k'(2) show ?thesis
      by (auto simp: nth_Cons split: nat.splits)
  qed
qed

lemma findIndex_None: "findIndex P xs = None \<longleftrightarrow> (\<forall>x \<in> set xs. \<not> P x)"
  by (induction xs) auto

lemma same_line_key: "same_line item i \<longleftrightarrow> line_key i = line_key item"
  by (auto simp: same_line_def line_key_def)

lemma line_key_quantity [simp]: "line_key (i\<lparr>quantity := q\<rparr>) = line_key i"
  by (simp add: line_key_def)

lemma map_key_update:
  "k < length xs \<Longrightarrow> map line_key (xs[k := (xs ! k)\<lparr>quantity := q\<rparr>]) = map line_key xs"
  by (simp add: map_update list_update_same_conv)

lemma items_addItem_merge:
  assumes "findIndex (same_line item) (items c) = Some k"
  shows "items (addItem c item) =
           (items c)[k := (items c ! k)
              \<lparr>quantity := quantity (items c ! k) + or_default (quantity item) 1\<rparr>]"
  using assms by (simp add: addItem_def)

lemma items_addItem_push:
  assumes "findIndex (same_line item) (items c) = None"
  shows "items (addItem c item) = items c @ [item]"
  using assms by (simp add: addItem_def)

lemma distinct_addItem:
  assumes "distinct (map line_key (items c))"
  shows "distinct (map line_key (items (addItem c item)))"
proof (cases "findIndex (same_line item) (items c)")
  case None
  then have "line_key item \<notin> line_key ` set (items c)"
    by (auto simp: findIndex_None same_line_key)
  with assms None show ?thesis
    by (simp add: items_addItem_push)
next
  case (Some k)
  then have "k < length (items c)" by (simp add: findIndex_Some)
  with assms Some show ?thesis
    by (simp add: items_addItem_merge map_key_update)
qed

lemma distinct_pull:
  "distinct (map line_key xs) \<Longrightarrow> distinct (map line_key (items_pull xs itemId))"
  by (simp add: items_pull_def distinct_map_filter)

lemma distinct_updateItemQuantity:
  assumes "distinct (map line_key (items c))"
  shows "distinct (map line_key (items (updateItemQuantity c itemId q)))"
proof (cases "items_id (items c) itemId")
  case None
  with assms show ?thesis by (simp add: updateItemQuantity_def)
next
  case (Some k)
  then have "k < length (items c)" by (simp add: items_id_def findIndex_Some)
  with assms Some show ?thesis
    by (simp add: updateItemQuantity_def map_key_update distinct_pull)
qed

lemma distinct_reachable:
  "cart_reachable c \<Longrightarrow> distinct (map line_key (items c))"
proof (induction rule: cart_reachable.induct)
  case (reach_new u)
  show ?case by (simp add: new_cart_def)
next
  case (reach_add c item)
  from reach_add.IH show ?case by (rule distinct_addItem)
next
  case (reach_update c itemId q)
  from reach_update.IH show ?case by (rule distinct_updateItemQuantity)
next
  case (reach_remove c itemId)
  then show ?case by (simp add: removeItem_def distinct_pull)
next
  case (reach_clear c)
  show ?case by (simp add: clearCart_def)
next
  case (reach_coupon c cc d)
  then show ?case by simp
qed


lemma shirt_cart_items: "items shirt_cart = [shirt_line]"
  by code_simp


subsection \<open>Coupons\<close>

lemma validCoupons_cases:
  "validCoupons k = Some pct \<longleftrightarrow>
     (k = ''FIRST10'' \<and> pct = 10) \<or> (k = ''SAVE20'' \<and> pct = 20) \<or> (k = ''DESIGNER15'' \<and> pct = 15)"
  by (auto simp: validCoupons_def coupon_table_def)

lemma validCoupons_nonzero: "validCoupons k = Some pct \<Longrightarrow> pct \<noteq> 0"
  by (auto simp: validCoupons_cases)

lemma toUpperCase_table:
  "toUpperCase ''FIRST10'' = ''FIRST10''" "toUpperCase ''SAVE20'' = ''SAVE20''"
  "toUpperCase ''DESIGNER15'' = ''DESIGNER15''"
  by code_simp+

lemma applyCoupon_known:
  assumes "cs u = Some c" and "validCoupons (toUpperCase code) = Some pct"
  shows "applyCoupon u code cs =
          (let c' = calculateTotals (c\<lparr>couponCode := Some (toUpperCase code),
                                       discount := Math_round ((subtotal c * pct) / 100)\<rparr>)
           in (Inr c', cs(u \<mapsto> c')))"
  using assms validCoupons_nonzero [of "toUpperCase code" pct] by (simp add: applyCoupon_def)

lemma applyCoupon_unknown:
  assumes "cs u = Some c" and "validCoupons (toUpperCase code) = None"
  shows "applyCoupon u code cs = (Inl InvalidCoupon, cs)"
  using assms by (simp add: applyCoupon_def)

text \<open>
  C6, as amended. The code is looked up after \<open>toUpperCase\<close>. When the upper-cased code
  is in the table (FIRST10 10, SAVE20 20, DESIGNER15 15) the cart's discount becomes
  \<open>Math.round(subtotal * percent / 100)\<close> of the stored subtotal, whatever discount and
  coupon the cart held before, the totals are recomputed and the cart is saved; SAVE20
  on a subtotal of 1000 gives a discount of 200. When the upper-cased form of an ASCII code
  is not in the table the request fails with \<open>Invalid coupon code\<close> and the cart
  collection is unchanged.
\<close>

theorem applyCoupon_by_upper_case:
  assumes "cs u = Some c"
  shows "(\<forall>pct. validCoupons (toUpperCase code) = Some pct \<longrightarrow>
            (\<exists>c'. applyCoupon u code cs = (Inr c', cs(u \<mapsto> c'))
               \<and> couponCode c' = Some (toUpperCase code)
               \<and> discount c' = Math_round ((subtotal c * pct) / 100)
               \<and> items c' = items c
               \<and> total c' = subtotal c' + tax c' + shipping c' - discount c'
               \<and> applyCoupon u code (cs(u \<mapsto> c\<lparr>discount := d, couponCode := cc\<rparr>))
                   = (Inr c', cs(u \<mapsto> c'))))
       \<and> (is_ascii code \<and> validCoupons (toUpperCase code) = None \<longrightarrow>
            applyCoupon u code cs = (Inl InvalidCoupon, cs))
       \<and> validCoupons (toUpperCase ''FIRST10'') = Some 10
       \<and> validCoupons (toUpperCase ''SAVE20'') = Some 20
       \<and> validCoupons (toUpperCase ''DESIGNER15'') = Some 15
       \<and> (subtotal c = 1000 \<longrightarrow>
            (\<exists>c'. applyCoupon u ''SAVE20'' cs = (Inr c', cs(u \<mapsto> c')) \<and> discount c' = 200))"
proof (intro conjI allI impI)
  fix pct
  assume v: "validCoupons (toUpperCase code) = Some pct"
  let ?c = "calculateTotals (c\<lparr>couponCode := Some (toUpperCase code),
                               discount := Math_round ((subtotal c * pct) / 100)\<rparr>)"
  have a: "applyCoupon u code cs = (Inr ?c, cs(u \<mapsto> ?c))"
    using applyCoupon_known [of cs u c code pct] assms v by (simp add: Let_def)
  have t: "total ?c = subtotal ?c + tax ?c + shipping ?c - discount ?c"
    by (simp add: calculateTotals_fields(4))
  have b: "applyCoupon u code (cs(u \<mapsto> c\<lparr>discount := d, couponCode := cc\<rparr>))
             = (Inr ?c, cs(u \<mapsto> ?c))"
    using applyCoupon_known
      [of "cs(u \<mapsto> c\<lparr>discount := d, couponCode := cc\<rparr>)" u
          "c\<lparr>discount := d, couponCode := cc\<rparr>" code pct] v
    by (simp add: Let_def)
  show "\<exists>c'. applyCoupon u code cs = (Inr c', cs(u \<mapsto> c'))
               \<and> couponCode c' = Some (toUpperCase code)
               \<and> discount c' = Math_round ((subtotal c * pct) / 100)
               \<and> items c' = items c
               \<and> total c' = subtotal c' + tax c' + shipping c' - discount c'
               \<and> applyCoupon u code (cs(u \<mapsto> c\<lparr>discount := d, couponCode := cc\<rparr>))
                   = (Inr c', cs(u \<mapsto> c'))"
    by (rule exI [of _ ?c]) (intro conjI a b t, simp_all)
next
  assume "is_ascii code \<and> validCoupons (toUpperCase code) = None"
  then show "applyCoupon u code cs = (Inl InvalidCoupon, cs)"
    using applyCoupon_unknown [of cs u c code] assms by simp
next
  show "validCoupons (toUpperCase ''FIRST10'') = Some 10"
    by (simp add: toUpperCase_table validCoupons_cases)
  show "validCoupons (toUpperCase ''SAVE20'') = Some 20"
    by (simp add: toUpperCase_table validCoupons_cases)
  show "validCoupons (toUpperCase ''DESIGNER15'') = Some 15"
    by (simp add: toUpperCase_table validCoupons_cases)
next
  assume s: "subtotal c = 1000"
  have v: "validCoupons (toUpperCase ''SAVE20'') = Some 20"
    by (simp add: toUpperCase_table validCoupons_cases)
  let ?c = "calculateTotals (c\<lparr>couponCode := Some (toUpperCase ''SAVE20''),
                               discount := Math_round ((subtotal c * 20) / 100)\<rparr>)"
  have a: "applyCoupon u ''SAVE20'' cs = (Inr ?c, cs(u \<mapsto> ?c))"
    using applyCoupon_known [of cs u c "''SAVE20''" 20] assms v by (simp add: Let_def)
  have r: "Math_round ((1000 * 20) / 100) = 200" by code_simp
  have d: "discount ?c = 200" by (simp add: s Math_round_def)
  show "\<exists>c'. applyCoupon u ''SAVE20'' cs = (Inr c', cs(u \<mapsto> c')) \<and> discount c' = 200"
    by (rule exI [of _ ?c]) (intro conjI a d)
qed

lemma shirt_cart_eval:
  "subtotal shirt_cart = 1000" "items shirt_cart = [shirt_line]" "shirt_carts ''u1'' = Some shirt_cart"
  by code_simp+

lemma coupon_cart_eval:
  "discount coupon_cart = 200" "total coupon_cart = 980" "couponCode coupon_cart = Some ''SAVE20''"
  by code_simp+

theorem applyCoupon_by_upper_case_witness:
  "shirt_carts ''u1'' = Some shirt_cart \<and> subtotal shirt_cart = 1000
   \<and> validCoupons (toUpperCase ''SAVE20'') = Some 20
   \<and> discount (projr (fst (applyCoupon ''u1'' ''SAVE20'' shirt_carts))) = 200
   \<and> total (projr (fst (applyCoupon ''u1'' ''SAVE20'' shirt_carts))) = 980
   \<and> is_ascii ''WELCOME5'' \<and> validCoupons (toUpperCase ''WELCOME5'') = None
   \<and> applyCoupon ''u1'' ''WELCOME5'' shirt_carts = (Inl InvalidCoupon, shirt_carts)"
proof -
  note t = applyCoupon_by_upper_case [of shirt_carts "''u1''" shirt_cart, OF shirt_cart_eval(3)]
  from t [of "''SAVE20''"] have v: "validCoupons (toUpperCase ''SAVE20'') = Some 20"
    by blast
  from t [of "''SAVE20''"] shirt_cart_eval(1)
  obtain c' where c': "applyCoupon ''u1'' ''SAVE20'' shirt_carts = (Inr c', shirt_carts(''u1'' \<mapsto> c'))"
      "discount c' = 200"
    by blast
  then have d: "discount (projr (fst (applyCoupon ''u1'' ''SAVE20'' shirt_carts))) = 200"
    by simp
  have e: "total (projr (fst (applyCoupon ''u1'' ''SAVE20'' shirt_carts))) = 980"
    by code_simp
  have w: "is_ascii ''WELCOME5''" "validCoupons (toUpperCase ''WELCOME5'') = None"
    by code_simp+
  from t [of "''WELCOME5''"] w
  have f: "applyCoupon ''u1'' ''WELCOME5'' shirt_carts = (Inl InvalidCoupon, shirt_carts)"
    by blast
  show ?thesis
    by (intro conjI shirt_cart_eval(3) shirt_cart_eval(1) v d e w f)
qed

text \<open>
  The claim as stated fails for \<open>save20\<close>: the string is not a key of the table, yet the
  request succeeds and the stored cart gets the discount 200.
\<close>

theorem applyCoupon_lower_case_counterexample:
  "''save20'' \<notin> fst ` set coupon_table
   \<and> shirt_carts ''u1'' = Some shirt_cart
   \<and> applyCoupon ''u1'' ''save20'' shirt_carts
       = (Inr coupon_cart, shirt_carts(''u1'' \<mapsto> coupon_cart))
   \<and> discount shirt_cart = 0 \<and> discount coupon_cart = 200"
proof -
  have a: "''save20'' \<notin> fst ` set coupon_table" by (simp add: coupon_table_def)
  have v: "validCoupons (toUpperCase ''save20'') = Some 20" by code_simp
  have u: "toUpperCase ''save20'' = ''SAVE20''" by code_simp
  have k: "applyCoupon ''u1'' ''SAVE20'' shirt_carts =
     (let c' = calculateTotals (shirt_cart\<lparr>couponCode := Some ''SAVE20'',
                   discount := Math_round ((subtotal shirt_cart * 20) / 100)\<rparr>)
      in (Inr c', shirt_carts(''u1'' \<mapsto> c')))"
    using applyCoupon_known [of shirt_carts "''u1''" shirt_cart "''SAVE20''" 20]
      shirt_cart_eval(3) v
    by (simp add: toUpperCase_table u)
  have c: "coupon_cart = calculateTotals (shirt_cart\<lparr>couponCode := Some ''SAVE20'',
                   discount := Math_round ((subtotal shirt_cart * 20) / 100)\<rparr>)"
    unfolding coupon_cart_def k by (simp add: Let_def)
  have g: "applyCoupon ''u1'' ''save20'' shirt_carts
       = (Inr coupon_cart, shirt_carts(''u1'' \<mapsto> coupon_cart))"
    using applyCoupon_known [of shirt_carts "''u1''" shirt_cart "''save20''" 20]
      shirt_cart_eval(3) v
    by (simp add: u c Let_def)
  have d: "discount shirt_cart = 0" by code_simp
  show ?thesis by (intro conjI a shirt_cart_eval(3) g d coupon_cart_eval(1))
qed

section \<open>Properties of checkout\<close>

lemma save_new_error:
  "save_new count now doc os = (Inl e, os') \<Longrightarrow> os' = os"
  by (auto simp: save_new_def Let_def split: if_splits)

lemma createOrder_failure:
  assumes "createOrder r dflt u req oid now s = (Inl e, s')"
  shows "s' = s"
  using assms
  by (auto simp: createOrder_def split: option.splits if_splits sum.splits prod.splits)

lemma prepare_items_fails:
  assumes "item \<in> set xs"
    and "case ps (product item) of None \<Rightarrow> True
         | Some p \<Rightarrow> (case find_variant p (variant item) of None \<Rightarrow> True
                      | Some v \<Rightarrow> stock v < quantity item)"
  shows "\<exists>e. prepare_items ps xs = Inl e"
  using assms
proof (induction xs)
  case Nil
  then show ?case by simp
next
  case (Cons x xs)
  show ?case
  proof (cases "x = item")
    case True
    with Cons.prems(2) show ?thesis
      by (auto split: option.splits sum.splits)
  next
    case False
    with Cons.prems have "item \<in> set xs" by simp
    from Cons.IH this Cons.prems(2) show ?thesis
      by (auto split: option.splits sum.splits)
  qed
qed

lemma createOrder_all_or_nothing:
  assumes "carts s u = Some c" and "item \<in> set (items c)"
    and "case products s (product item) of None \<Rightarrow> True
         | Some p \<Rightarrow> (case find_variant p (variant item) of None \<Rightarrow> True
                      | Some v \<Rightarrow> stock v < quantity item)"
  shows "\<exists>e. createOrder r dflt u req oid now s = (Inl e, s)"
proof -
  from prepare_items_fails [of item "items c" "products s"] assms(2,3)
  obtain e where "prepare_items (products s) (items c) = Inl e" by blast
  with assms(1,2) show ?thesis
    by (auto simp: createOrder_def)
qed

lemma createOrder_success:
  assumes "createOrder r dflt u req oid now s = (Inr ord, s')"
  shows "\<exists>c. carts s u = Some c \<and> carts s' = (carts s)(u \<mapsto> clearCart c)
            \<and> products s' = reduce_stock r (items c) (products s)
            \<and> orders s' = orders s @ [ord]"
  using assms
  by (auto simp: createOrder_def save_new_def Let_def
      split: option.splits if_splits sum.splits prod.splits)

text \<open>
  C7. When the user has no cart, or a cart without items, \<open>createOrder\<close> answers
  \<open>Your cart is empty\<close> and the database is what it was: no order, no stock change, the
  cart untouched.
\<close>

theorem createOrder_empty_cart:
  assumes "carts s u = None \<or> (\<exists>c. carts s u = Some c \<and> items c = [])"
  shows "createOrder r dflt u req oid now s = (Inl EmptyCart, s)"
  using assms by (auto simp: createOrder_def)

theorem createOrder_empty_cart_witness:
  "carts empty_cart_db ''u1'' = Some (new_cart ''u1'') \<and> items (new_cart ''u1'') = []
   \<and> carts empty_cart_db ''u9'' = None
   \<and> createOrder first_size_match False ''u1'' cod_request ''o1'' today empty_cart_db
       = (Inl EmptyCart, empty_cart_db)
   \<and> createOrder first_size_match False ''u9'' cod_request ''o1'' today empty_cart_db
       = (Inl EmptyCart, empty_cart_db)"
proof -
  have a: "carts empty_cart_db ''u1'' = Some (new_cart ''u1'')"
    by (simp add: empty_cart_db_def)
  have b: "items (new_cart ''u1'') = []" by (simp add: new_cart_def)
  have c: "carts empty_cart_db ''u9'' = None" by (simp add: empty_cart_db_def)
  from a b have h1: "carts empty_cart_db ''u1'' = None
      \<or> (\<exists>c. carts empty_cart_db ''u1'' = Some c \<and> items c = [])" by simp
  from c have h2: "carts empty_cart_db ''u9'' = None
      \<or> (\<exists>c. carts empty_cart_db ''u9'' = Some c \<and> items c = [])" by simp
  show ?thesis
    by (intro conjI a b c createOrder_empty_cart [OF h1] createOrder_empty_cart [OF h2])
qed


section \<open>Properties of orders\<close>

lemma canCancel_iff: "canCancel d \<longleftrightarrow> status d = pending \<or> status d = confirmed \<or> status d = processing"
  by (auto simp: canCancel_def)

lemma cancelOrder_refused:
  assumes "find_order oid u (orders s) = Some ord" and "\<not> canCancel ord"
  shows "cancelOrder r u oid rsn now s = (Inl OrderNotCancellable, s)"
  using assms by (simp add: cancelOrder_def)

lemma pre_save_keeps [simp]:
  "status (pre_save count now d) = status d"
  "cancellation (pre_save count now d) = cancellation d"
  "o_items (pre_save count now d) = o_items d"
  "order_id (pre_save count now d) = order_id d"
  "o_shipping (pre_save count now d) = o_shipping d"
  by (simp_all add: pre_save_def Let_def)

lemma cancelOrder_accepted:
  assumes "find_order oid u (orders s) = Some ord" and "canCancel ord"
    and "cancelOrder r u oid rsn now s = (Inr ord', s')"
  shows "status ord' = cancelled
       \<and> cancellation ord' = Some \<lparr>reason = rsn, cancelledAt = now, cancelledBy = u\<rparr>
       \<and> products s' = restore_stock r (o_items ord) (products s)"
  using assms
  by (auto simp: cancelOrder_def cancel_def save_order_def set_status_def Let_def
      split: if_splits prod.splits sum.splits)

lemma cancelOrder_succeeds_only_if:
  assumes "cancelOrder r u oid rsn now s = (Inr ord', s')"
  shows "\<exists>ord. find_order oid u (orders s) = Some ord \<and> canCancel ord"
  using assms
  by (auto simp: cancelOrder_def split: option.splits if_splits)

text \<open>
  C3 at a failing input. The stored order \<open>o1\<close> is pending and holds one pair of jeans in
  L/Black. Cancelling it succeeds and the status becomes cancelled, but the stock of
  L/Black is 18 before and after: the increment goes to L/Indigo or to M/Black, by the
  same position rule as at checkout. (A refused cancellation changes nothing,
  \<open>cancelOrder_refused\<close>; an accepted one records the cancellation block,
  \<open>cancelOrder_accepted\<close>.)
\<close>

theorem cancelOrder_restores_other_variant:
  "map (\<lambda>d. (order_id d, status d, map (\<lambda>i. (oi_variant i, oi_quantity i)) (o_items d)))
       (orders (ordered_db first_size_match False))
     = [(''o1'', pending,
         [(\<lparr>sel_size = ''L'', sel_color = ''Black'', sel_sku = Some ''JNS-L-BLK''\<rparr>, 1)])]
   \<and> orders (ordered_db first_color_match False) = orders (ordered_db first_size_match False)
   \<and> stocks (ordered_db first_size_match False) ''p2'' = [12, 25, 19, 15, 18]
   \<and> map_sum id status (fst (cancelOrder first_size_match ''u1'' ''o1'' (Some ''late'') today
                                (ordered_db first_size_match False))) = Inr cancelled
   \<and> map_sum id cancellation (fst (cancelOrder first_size_match ''u1'' ''o1'' (Some ''late'') today
                                (ordered_db first_size_match False)))
       = Inr (Some \<lparr>reason = Some ''late'', cancelledAt = today, cancelledBy = ''u1''\<rparr>)
   \<and> stocks (snd (cancelOrder first_size_match ''u1'' ''o1'' (Some ''late'') today
                     (ordered_db first_size_match False))) ''p2'' = [12, 25, 20, 15, 18]
   \<and> stocks (ordered_db first_color_match False) ''p2'' = [12, 25, 20, 14, 18]
   \<and> map_sum id status (fst (cancelOrder first_color_match ''u1'' ''o1'' (Some ''late'') today
                                (ordered_db first_color_match False))) = Inr cancelled
   \<and> stocks (snd (cancelOrder first_color_match ''u1'' ''o1'' (Some ''late'') today
                     (ordered_db first_color_match False))) ''p2'' = [12, 25, 20, 15, 18]"
  by (intro conjI; code_simp)

subsection \<open>Status history\<close>

lemma updateStatus_history:
  "statusHistory (updateStatus st note now d)
     = statusHistory d @ [\<lparr>h_status = st, h_date = now, h_note = note\<rparr>]"
  by (simp add: updateStatus_def set_status_def Let_def)

lemma updateStatus_modified:
  "status_modified (updateStatus st note now d) \<longleftrightarrow> status_modified d \<or> st \<noteq> status d"
  by (simp add: updateStatus_def set_status_def Let_def)

lemma updateStatus_status [simp]: "status (updateStatus st note now d) = st"
  by (simp add: updateStatus_def set_status_def Let_def)

lemma updateStatus_stamps:
  "shippedAt (o_shipping (updateStatus shipped note now d)) = Some now"
  "deliveredAt (o_shipping (updateStatus delivered note now d)) = Some now"
  by (simp_all add: updateStatus_def set_status_def Let_def)

lemma pre_save_history:
  "statusHistory (pre_save count now d)
     = (if status_modified d
        then statusHistory d @ [\<lparr>h_status = status d, h_date = now, h_note = None\<rparr>]
        else statusHistory d)"
  by (simp add: pre_save_def Let_def)

lemma updateStatus_then_save_history:
  assumes "\<not> status_modified d"
  shows "statusHistory (pre_save count now (updateStatus st note now d))
     = (if st \<noteq> status d
        then statusHistory d @ [\<lparr>h_status = st, h_date = now, h_note = note\<rparr>,
                                \<lparr>h_status = st, h_date = now, h_note = None\<rparr>]
        else statusHistory d @ [\<lparr>h_status = st, h_date = now, h_note = note\<rparr>])"
  using assms
  by (simp add: pre_save_history updateStatus_history updateStatus_modified)

lemma cancel_then_save_history:
  assumes "\<not> status_modified d" and "cancel rsn by now d = Inr d'"
  shows "statusHistory (pre_save count now d')
     = statusHistory d @ [\<lparr>h_status = cancelled, h_date = now, h_note = None\<rparr>]"
  using assms
  by (auto simp: cancel_def pre_save_history set_status_def canCancel_def split: if_splits)

text \<open>
  C5 at a failing input. \<open>updateOrderStatus\<close> moves the pending order \<open>o1\<close> to
  confirmed: \<open>updateStatus\<close> appends an entry with the note, and the hook of the
  following save appends a second entry because the status was modified. The transition
  adds two entries to the history, whether or not the creation left an entry.
  (\<open>cancel\<close> followed by the save adds one, \<open>cancel_then_save_history\<close>; the stamps are
  \<open>updateStatus_stamps\<close>.)
\<close>

theorem updateOrderStatus_appends_two:
  "map (\<lambda>d. (order_id d, status d)) (orders (ordered_db first_size_match False)) = [(''o1'', pending)]
   \<and> history_of ''o1'' (orders (ordered_db first_size_match False)) = []
   \<and> history_of ''o1'' (snd (updateOrderStatus ''o1'' confirmed (Some ''paid'') None None today
                               (orders (ordered_db first_size_match False))))
      = [\<lparr>h_status = confirmed, h_date = today, h_note = Some ''paid''\<rparr>,
         \<lparr>h_status = confirmed, h_date = today, h_note = None\<rparr>]
   \<and> history_of ''o1'' (orders (ordered_db first_size_match True))
      = [\<lparr>h_status = pending, h_date = today, h_note = None\<rparr>]
   \<and> history_of ''o1'' (snd (updateOrderStatus ''o1'' confirmed (Some ''paid'') None None today
                               (orders (ordered_db first_size_match True))))
      = [\<lparr>h_status = pending, h_date = today, h_note = None\<rparr>,
         \<lparr>h_status = confirmed, h_date = today, h_note = Some ''paid''\<rparr>,
         \<lparr>h_status = confirmed, h_date = today, h_note = None\<rparr>]"
  by (intro conjI; code_simp)

subsection \<open>Order numbers\<close>

lemma of_char_digit: "d < 10 \<Longrightarrow> (of_char (digit_char d) :: nat) = 48 + d"
  by (simp add: digit_char_def)

lemma digit_char_inj: "a < 10 \<Longrightarrow> b < 10 \<Longrightarrow> digit_char a = digit_char b \<Longrightarrow> a = b"
  by (metis of_char_digit add_left_cancel)

lemma digit_char_not_dash: "d < 10 \<Longrightarrow> digit_char d \<noteq> CHR ''-''"
proof
  assume "d < 10" and "digit_char d = CHR ''-''"
  then have "(of_char (CHR ''-'') :: nat) = 48 + d" by (metis of_char_digit)
  then show False by simp
qed

lemma digit_char_zero: "d < 10 \<Longrightarrow> digit_char d = CHR ''0'' \<longleftrightarrow> d = 0"
proof
  assume "d < 10" and "digit_char d = CHR ''0''"
  then have "(of_char (CHR ''0'') :: nat) = 48 + d" by (metis of_char_digit)
  then show "d = 0" by simp
next
  have "digit_char 0 = CHR ''0''" by code_simp
  moreover assume "d = 0"
  ultimately show "digit_char d = CHR ''0''" by simp
qed

lemma String_nat_not_Nil: "String_nat n \<noteq> []"
  by (subst String_nat.simps) simp

lemma String_nat_no_dash: "CHR ''-'' \<notin> set (String_nat n)"
proof (induction n rule: String_nat.induct)
  case (1 n)
  show ?case
  proof (cases "n < 10")
    case True
    then show ?thesis
      using digit_char_not_dash [of n] by (subst String_nat.simps) auto
  next
    case False
    with "1.IH" show ?thesis
      using digit_char_not_dash [of "n mod 10"] by (subst String_nat.simps) auto
  qed
qed

lemma String_nat_hd: "0 < n \<Longrightarrow> hd (String_nat n) \<noteq> CHR ''0''"
proof (induction n rule: String_nat.induct)
  case (1 n)
  show ?case
  proof (cases "n < 10")
    case True
    with "1.prems" show ?thesis
      by (subst String_nat.simps) (simp add: digit_char_zero)
  next
    case False
    then have "0 < n div 10" by simp
    with "1.IH" False have "hd (String_nat (n div 10)) \<noteq> CHR ''0''" by simp
    with False show ?thesis
      by (subst String_nat.simps) (simp add: String_nat_not_Nil)
  qed
qed

lemma String_nat_inj: "String_nat n = String_nat m \<Longrightarrow> n = m"
proof (induction n arbitrary: m rule: String_nat.induct)
  case (1 n)
  show ?case
  proof (cases "n < 10")
    case n: True
    show ?thesis
    proof (cases "m < 10")
      case True
      with n "1.prems" show ?thesis
        by (simp add: String_nat.simps [of n] String_nat.simps [of m] digit_char_inj)
    next
      case False
      with n "1.prems" show ?thesis
        by (simp add: String_nat.simps [of n] String_nat.simps [of m]
              String_nat_not_Nil [THEN not_sym])
    qed
  next
    case n: False
    show ?thesis
    proof (cases "m < 10")
      case True
      with n "1.prems" show ?thesis
        by (simp add: String_nat.simps [of n] String_nat.simps [of m] String_nat_not_Nil)
    next
      case False
      with n "1.prems"
      have e: "String_nat (n div 10) @ [digit_char (n mod 10)]
             = String_nat (m div 10) @ [digit_char (m mod 10)]"
        by (simp add: String_nat.simps [of n] String_nat.simps [of m])
      then have "String_nat (n div 10) = String_nat (m div 10)"
        and "digit_char (n mod 10) = digit_char (m mod 10)"
        by simp_all
      with "1.IH" n have "n div 10 = m div 10" and "n mod 10 = m mod 10"
        by (simp_all add: digit_char_inj)
      then show ?thesis by (metis div_mult_mod_eq)
    qed
  qed
qed

lemma padStart_strip:
  assumes "s \<noteq> []" and "hd s \<noteq> ch"
  shows "dropWhile (\<lambda>c. c = ch) (padStart w ch s) = s"
  using assms by (cases s) (simp_all add: padStart_def dropWhile_append3)

lemma padStart_no_dash:
  "CHR ''-'' \<notin> set s \<Longrightarrow> CHR ''-'' \<notin> set (padStart w CHR ''0'' s)"
  by (auto simp: padStart_def)

lemma suffix_after_dash:
  assumes "CHR ''-'' \<notin> set p"
  shows "takeWhile (\<lambda>c. c \<noteq> CHR ''-'') (rev (a @ ''-'' @ p)) = rev p"
proof -
  have "takeWhile (\<lambda>c. c \<noteq> CHR ''-'') (rev p @ CHR ''-'' # rev a)
          = rev p @ takeWhile (\<lambda>c. c \<noteq> CHR ''-'') (CHR ''-'' # rev a)"
    by (rule takeWhile_append2) (use assms in auto)
  then show ?thesis by simp
qed

lemma order_number_inj:
  assumes "order_number d n = order_number d' m"
  shows "n = m"
proof -
  let ?p = "\<lambda>k. padStart 6 CHR ''0'' (String_nat (k + 1))"
  have nd: "CHR ''-'' \<notin> set (?p k)" for k
    by (simp add: padStart_no_dash String_nat_no_dash)
  have "order_number d n = (''ORD-'' @ dateStr d) @ ''-'' @ ?p n"
    and "order_number d' m = (''ORD-'' @ dateStr d') @ ''-'' @ ?p m"
    by (simp_all add: order_number_def)
  with assms have "rev ((''ORD-'' @ dateStr d) @ ''-'' @ ?p n)
                 = rev ((''ORD-'' @ dateStr d') @ ''-'' @ ?p m)"
    by simp
  then have "takeWhile (\<lambda>c. c \<noteq> CHR ''-'') (rev ((''ORD-'' @ dateStr d) @ ''-'' @ ?p n))
           = takeWhile (\<lambda>c. c \<noteq> CHR ''-'') (rev ((''ORD-'' @ dateStr d') @ ''-'' @ ?p m))"
    by (rule arg_cong)
  then have "rev (?p n) = rev (?p m)"
    by (simp only: suffix_after_dash [OF nd])
  then have "?p n = ?p m" by simp
  then have "dropWhile (\<lambda>c. c = CHR ''0'') (?p n) = dropWhile (\<lambda>c. c = CHR ''0'') (?p m)"
    by (rule arg_cong)
  then have "String_nat (n + 1) = String_nat (m + 1)"
    by (simp add: padStart_strip String_nat_not_Nil String_nat_hd)
  then have "n + 1 = m + 1" by (rule String_nat_inj)
  then show ?thesis by simp
qed

lemma order_number_not_Nil: "order_number d n \<noteq> []"
  by (simp add: order_number_def)

subsection \<open>The hook and the order number\<close>

lemma pre_save_assigns:
  "no_orderNumber d \<Longrightarrow> orderNumber (pre_save count now d) = Some (order_number now count)"
  by (simp add: pre_save_def Let_def)

lemma pre_save_keeps_number:
  "\<not> no_orderNumber d \<Longrightarrow> orderNumber (pre_save count now d) = orderNumber d"
  by (simp add: pre_save_def Let_def)

lemma pre_save_has_number: "\<not> no_orderNumber (pre_save count now d)"
  by (cases "no_orderNumber d")
     (simp_all add: pre_save_def Let_def no_orderNumber_def order_number_not_Nil)

lemma pre_save_id [simp]: "order_id (pre_save count now d) = order_id d"
  by (simp add: pre_save_def Let_def)

lemma no_orderNumber_flag [simp]:
  "no_orderNumber (d\<lparr>status_modified := b\<rparr>) = no_orderNumber d"
  by (simp add: no_orderNumber_def)

lemma save_new_inv:
  assumes "store_inv os" and "save_new count now doc os = (Inr d, os')"
  shows "store_inv os'"
proof -
  let ?d = "(pre_save count now doc)\<lparr>status_modified := False\<rparr>"
  from assms(2) have f: "orderNumber ?d \<notin> orderNumber ` set os"
      "order_id ?d \<notin> order_id ` set os" and o: "os' = os @ [?d]"
    by (auto simp: save_new_def Let_def split: if_splits)
  have "\<not> no_orderNumber ?d" by (simp add: pre_save_has_number)
  with assms(1) f o show ?thesis
    by (auto simp: store_inv_def)
qed

lemma save_order_inv:
  assumes "store_inv os" and "stored \<in> set os" and "order_id doc = order_id stored"
    and "orderNumber doc = orderNumber stored"
    and "save_order count now doc os = (Inr d, os')"
  shows "store_inv os' \<and> map orderNumber os' = map orderNumber os \<and> length os' = length os"
proof -
  let ?d = "(pre_save count now doc)\<lparr>status_modified := False\<rparr>"
  from assms(5) have o: "os' = map (\<lambda>x. if order_id x = order_id ?d then ?d else x) os"
    by (auto simp: save_order_def Let_def split: if_splits)
  from assms(1,2) have "\<not> no_orderNumber stored" by (simp add: store_inv_def)
  with assms(4) have "\<not> no_orderNumber doc" by (simp add: no_orderNumber_def)
  then have n: "orderNumber ?d = orderNumber stored"
    using assms(4) by (simp add: pre_save_keeps_number)
  have i: "order_id ?d = order_id stored" using assms(3) by simp
  have same: "x = stored" if "x \<in> set os" "order_id x = order_id stored" for x
    using that assms(1,2) by (auto simp: store_inv_def distinct_map inj_on_def)
  have mn: "map orderNumber os' = map orderNumber os"
    unfolding o using same n i by (auto simp: comp_def)
  have mi: "map order_id os' = map order_id os"
    unfolding o using i by (auto simp: comp_def)
  have nn: "\<forall>x \<in> set os'. \<not> no_orderNumber x"
    unfolding o using assms(1) by (auto simp: store_inv_def pre_save_has_number)
  from assms(1) mn mi nn have "store_inv os'" by (simp add: store_inv_def)
  with mn o show ?thesis by simp
qed

lemma store_reachable_inv: "store_reachable os \<Longrightarrow> store_inv os"
proof (induction rule: store_reachable.induct)
  case store_empty
  show ?case by (simp add: store_inv_def)
next
  case (store_create os doc count now d os')
  from store_create.IH store_create.hyps(3) show ?case by (rule save_new_inv)
next
  case (store_save os stored doc count now d os')
  from save_order_inv [OF store_save.IH store_save.hyps(2,3,4,5)] show ?case by simp
qed

lemma sequential_reachable: "store_sequential os \<Longrightarrow> store_reachable os"
proof (induction rule: store_sequential.induct)
  case seq_empty
  show ?case by (rule store_empty)
next
  case (seq_create os doc now d os')
  from seq_create.IH seq_create.hyps(2,3) show ?case by (rule store_create)
next
  case (seq_save os stored doc now d os')
  from seq_save.IH seq_save.hyps(2,3,4,5) show ?case by (rule store_save)
qed

lemma sequential_numbers:
  "store_sequential os \<Longrightarrow> \<forall>k < length os. \<exists>dt. orderNumber (os ! k) = Some (order_number dt k)"
proof (induction rule: store_sequential.induct)
  case seq_empty
  show ?case by simp
next
  case (seq_create os doc now d os')
  let ?d = "(pre_save (length os) now doc)\<lparr>status_modified := False\<rparr>"
  from seq_create.hyps(3) have o: "os' = os @ [?d]"
    by (auto simp: save_new_def Let_def split: if_splits)
  from seq_create.hyps(2) have "orderNumber ?d = Some (order_number now (length os))"
    by (simp add: pre_save_assigns)
  with seq_create.IH o show ?case
    by (auto simp: nth_append less_Suc_eq)
next
  case (seq_save os stored doc now d os')
  from sequential_reachable [OF seq_save.hyps(1)] have "store_inv os"
    by (rule store_reachable_inv)
  from save_order_inv [OF this seq_save.hyps(2,3,4,5)]
  have m: "map orderNumber os' = map orderNumber os" and l: "length os' = length os"
    by simp_all
  have "orderNumber (os' ! k) = orderNumber (os ! k)" if "k < length os" for k
    using that m l by (metis nth_map)
  with seq_create seq_save.IH l show ?case by simp
qed

lemma sequential_create_fresh:
  assumes "store_sequential os" and "no_orderNumber doc"
    and "order_id doc \<notin> order_id ` set os"
  shows "\<exists>d. save_new (length os) now doc os = (Inr d, os @ [d])
           \<and> orderNumber d = Some (order_number now (length os))
           \<and> orderNumber d \<notin> orderNumber ` set os"
proof -
  let ?d = "(pre_save (length os) now doc)\<lparr>status_modified := False\<rparr>"
  have n: "orderNumber ?d = Some (order_number now (length os))"
    using assms(2) by (simp add: pre_save_assigns)
  have fresh: "orderNumber ?d \<notin> orderNumber ` set os"
  proof
    assume "orderNumber ?d \<in> orderNumber ` set os"
    then obtain k where k: "k < length os" "orderNumber (os ! k) = orderNumber ?d"
      by (auto simp: in_set_conv_nth)
    with sequential_numbers [OF assms(1)] obtain dt
      where "orderNumber (os ! k) = Some (order_number dt k)" by blast
    with k n have "order_number dt k = order_number now (length os)" by simp
    then have "k = length os" by (rule order_number_inj)
    with k(1) show False by simp
  qed
  have "save_new (length os) now doc os = (Inr ?d, os @ [?d])"
    using fresh assms(3) by (simp add: save_new_def Let_def)
  with n fresh show ?thesis by blast
qed



end
